theory Spec2Isabelle
  imports Complex_Main
begin

section \<open>The capture screen of SmartLeaf: \<open>app/(tabs)/index.tsx\<close>, \<open>HomeScreen\<close>\<close>

text \<open>
  \<open>HomeScreen\<close> is a React function component. Its state is three hook values
  (\<open>permission\<close>, \<open>facing\<close>, \<open>capturedImage\<close>); it reads the platform identity and a
  camera ref, calls two platform capabilities (the gallery picker and the still capture),
  and reports to the user through \<open>Alert.alert\<close>. The embedding below keeps these apart:
  the hook values are a record that the handlers take and return, the platform is a record
  of injected values, a promise is the value it settles to, and every call that leaves the
  component is an entry of an effect trace.
\<close>

subsection \<open>Platform values\<close>

text \<open>\<open>Platform.OS\<close> of react-native.\<close>

datatype platform_os = Ios | Android | Windows | Macos | Web

text \<open>The type argument of \<open>useState<'back' | 'front'>\<close>.\<close>

datatype camera_type = Back | Front

text \<open>
  The object held by \<open>useCameraPermissions\<close>; the hook value is \<open>null\<close> until the first
  answer arrives. The component reads the field \<open>granted\<close> only.
\<close>

record permission_response =
  granted :: bool

text \<open>The options object literal of \<open>handleUploadImage\<close>; \<open>quality\<close> is a JavaScript number.\<close>

datatype media_type_options = All | Images | Videos

record image_picker_options =
  mediaTypes :: media_type_options
  allowsEditing :: bool
  aspect :: "nat \<times> nat"
  quality :: real

record image_picker_asset =
  uri :: string

text \<open>
  What the picker's promise resolves to: \<open>canceled\<close> and \<open>assets\<close>, the latter an array or
  \<open>null\<close>.
\<close>

record image_picker_result =
  canceled :: bool
  assets :: "image_picker_asset list option"

text \<open>
  What \<open>takePictureAsync\<close> resolves to, when it is not \<open>undefined\<close>. The field is \<open>uri\<close> in
  the source; it has its own name here because a record field name is global.
\<close>

record camera_captured_picture =
  photo_uri :: string

text \<open>
  An awaited promise inside \<open>try\<close>: it resolves to a value, or it rejects and control
  passes to the \<open>catch\<close> block.
\<close>

datatype 'a promise = Resolved 'a | Rejected

text \<open>The mounted \<open>CameraView\<close> behind \<open>cameraRef.current\<close>, as far as the component uses it.\<close>

record camera_view =
  takePictureAsync :: "camera_captured_picture option promise"

text \<open>
  Everything the component reads from outside its own state: \<open>Platform.OS\<close>,
  \<open>ImagePicker.launchImageLibraryAsync\<close>, and \<open>cameraRef.current\<close> (\<open>None\<close> is \<open>null\<close>).
\<close>

record platform =
  OS :: platform_os
  launchImageLibraryAsync :: "image_picker_options \<Rightarrow> image_picker_result promise"
  cameraRef :: "camera_view option"

subsection \<open>Component state and effects\<close>

text \<open>
  The three hook values. \<open>capturedImage\<close> has type \<open>string | null\<close>: \<open>None\<close> is \<open>null\<close>, and
  \<open>Some []\<close> is the empty string, a value of the type like any other.
\<close>

record home_state =
  permission :: "permission_response option"
  facing :: camera_type
  capturedImage :: "string option"

text \<open>
  The calls that leave the component: \<open>Alert.alert(title, message)\<close>, the gallery picker
  with its options, the still capture, and the permission request.
\<close>

datatype effect =
    Alert string string
  | LaunchImageLibrary image_picker_options
  | TakePicture
  | RequestPermission

text \<open>The mount effect: \<open>if (Platform.OS !== 'web') requestPermission()\<close>.\<close>

definition mountEffect :: "platform_os \<Rightarrow> effect list" where
  "mountEffect os = (if os \<noteq> Web then [RequestPermission] else [])"

subsection \<open>Handlers\<close>

definition upload_options :: image_picker_options where
  "upload_options =
     \<lparr>mediaTypes = Images, allowsEditing = True, aspect = (4, 3), quality = 1\<rparr>"

text \<open>
  \<open>handleUploadImage\<close>. The picker is called first. A rejection goes to \<open>catch\<close>. A result
  that is not canceled reads \<open>result.assets[0].uri\<close>; when \<open>assets\<close> is \<open>null\<close> or empty
  that read throws a \<open>TypeError\<close> inside the same \<open>try\<close>, so it ends in the same \<open>catch\<close>.
\<close>

definition handleUploadImage :: "platform \<Rightarrow> home_state \<Rightarrow> home_state \<times> effect list" where
  "handleUploadImage p s =
     (case launchImageLibraryAsync p upload_options of
        Rejected \<Rightarrow>
          (s, [LaunchImageLibrary upload_options, Alert ''Error'' ''Failed to pick image''])
      | Resolved result \<Rightarrow>
          if \<not> canceled result then
            (case assets result of
               Some (a # _) \<Rightarrow>
                 (s\<lparr>capturedImage := Some (uri a)\<rparr>, [LaunchImageLibrary upload_options])
             | _ \<Rightarrow>
                 (s, [LaunchImageLibrary upload_options,
                      Alert ''Error'' ''Failed to pick image'']))
          else (s, [LaunchImageLibrary upload_options]))"

text \<open>
  \<open>handleCapturePhoto\<close>. On web it alerts and returns. Otherwise the body of \<open>try\<close> does
  nothing when \<open>cameraRef.current\<close> is \<open>null\<close>, and stores \<open>photo.uri\<close> when the capture
  resolves to a picture (\<open>if (photo)\<close> fails for \<open>undefined\<close> only).
\<close>

definition handleCapturePhoto :: "platform \<Rightarrow> home_state \<Rightarrow> home_state \<times> effect list" where
  "handleCapturePhoto p s =
     (if OS p = Web then
        (s, [Alert ''Camera Not Available'' ''Camera is only available on mobile devices.''])
      else
        (case cameraRef p of
           None \<Rightarrow> (s, [])
         | Some cam \<Rightarrow>
             (case takePictureAsync cam of
                Rejected \<Rightarrow> (s, [TakePicture, Alert ''Error'' ''Failed to capture photo''])
              | Resolved None \<Rightarrow> (s, [TakePicture])
              | Resolved (Some photo) \<Rightarrow>
                  (s\<lparr>capturedImage := Some (photo_uri photo)\<rparr>, [TakePicture]))))"


definition retakeButton_onPress :: "home_state \<Rightarrow> home_state \<times> effect list" where
  "retakeButton_onPress s = (s\<lparr>capturedImage := None\<rparr>, [])"

definition analyzeButton_onPress :: "home_state \<Rightarrow> home_state \<times> effect list" where
  "analyzeButton_onPress s = (s, [Alert ''Analyzing'' ''Processing image...''])"

subsection \<open>Rendering\<close>

text \<open>
  JavaScript's \<open>ToBoolean\<close> on a \<open>string | null\<close>, as used by \<open>capturedImage ? ... : ...\<close>,
  \<open>!capturedImage\<close> and \<open>capturedImage && ...\<close>: \<open>null\<close> and the empty string are falsy.
\<close>

fun truthy :: "string option \<Rightarrow> bool" where
  "truthy None = False"
| "truthy (Some u) = (u \<noteq> [])"

text \<open>
  The permission is granted: \<open>permission && permission.granted\<close>. It is unknown while the
  hook value is \<open>null\<close>, and denied when the value is there and \<open>granted\<close> is false.
\<close>

definition permission_granted :: "home_state \<Rightarrow> bool" where
  "permission_granted s = (case permission s of None \<Rightarrow> False | Some r \<Rightarrow> granted r)"

text \<open>
  The element tree, down to what varies. The camera container holds the preview image
  (with its \<open>uri\<close>), the web placeholder (with its own upload button) or the live
  \<open>CameraView\<close> (with its \<open>facing\<close>). The main container also says whether the controls
  row and the bottom action row are present.
\<close>

datatype camera_container = Preview string | WebPlaceholder | CameraView camera_type

datatype screen =
    LoadingContainer
  | PermissionContainer
  | Container camera_container bool bool

text \<open>The nested conditional \<open>capturedImage ? ... : isWeb ? ... : ...\<close>.\<close>

definition cameraContainer :: "platform_os \<Rightarrow> home_state \<Rightarrow> camera_container" where
  "cameraContainer os s =
     (case capturedImage s of
        Some u \<Rightarrow>
          if u \<noteq> [] then Preview u
          else if os = Web then WebPlaceholder else CameraView (facing s)
      | None \<Rightarrow> if os = Web then WebPlaceholder else CameraView (facing s))"

text \<open>
  \<open>HomeScreen\<close>: the two early returns (loading, permission denied), then the main
  container with \<open>{!isWeb && !capturedImage && ...}\<close> and \<open>{capturedImage && ...}\<close>.
\<close>

definition HomeScreen :: "platform_os \<Rightarrow> home_state \<Rightarrow> screen" where
  "HomeScreen os s =
     (let isWeb = (os = Web) in
      if \<not> isWeb \<and> permission s = None then LoadingContainer
      else if \<not> isWeb \<and> (case permission s of None \<Rightarrow> False | Some r \<Rightarrow> \<not> granted r)
        then PermissionContainer
      else Container (cameraContainer os s)
             (\<not> isWeb \<and> \<not> truthy (capturedImage s))
             (truthy (capturedImage s)))"

text \<open>What a rendered screen shows.\<close>

fun shows_camera :: "screen \<Rightarrow> bool" where
  "shows_camera (Container (CameraView _) _ _) = True"
| "shows_camera _ = False"

fun shows_webPlaceholder :: "screen \<Rightarrow> bool" where
  "shows_webPlaceholder (Container WebPlaceholder _ _) = True"
| "shows_webPlaceholder _ = False"

fun shows_preview :: "screen \<Rightarrow> string option" where
  "shows_preview (Container (Preview u) _ _) = Some u"
| "shows_preview _ = None"



text \<open>
  The touchables of a screen, in document order. The header's two icons have no handler.
  The controls row holds the gallery, capture and flip buttons; the bottom action row
  holds retake and analyze; the web placeholder has an upload button of its own.
\<close>

datatype control =
    MenuButton
  | NotificationsButton
  | GrantPermissionButton
  | UploadOnlyButton
  | UploadButton
  | CaptureButton
  | FlipButton
  | RetakeButton
  | AnalyzeButton

fun controls_of :: "screen \<Rightarrow> control list" where
  "controls_of LoadingContainer = []"
| "controls_of PermissionContainer = [GrantPermissionButton]"
| "controls_of (Container cc c b) =
     [MenuButton, NotificationsButton]
     @ (case cc of WebPlaceholder \<Rightarrow> [UploadOnlyButton] | _ \<Rightarrow> [])
     @ (if c then [UploadButton, CaptureButton, FlipButton] else [])
     @ (if b then [RetakeButton, AnalyzeButton] else [])"

section \<open>Basic facts\<close>

lemma truthy_iff: "truthy x \<longleftrightarrow> (\<exists>u. x = Some u \<and> u \<noteq> [])"
  by (cases x) simp_all


text \<open>The main container is returned exactly when neither early \<open>return\<close> fires.\<close>

lemma HomeScreen_main:
  "os = Web \<or> permission_granted s \<Longrightarrow>
   HomeScreen os s =
     Container (cameraContainer os s)
       (os \<noteq> Web \<and> \<not> truthy (capturedImage s)) (truthy (capturedImage s))"
  by (auto simp: HomeScreen_def permission_granted_def Let_def split: option.splits)


lemma cameraContainer_CameraView:
  "(\<exists>f. cameraContainer os s = CameraView f) \<longleftrightarrow> os \<noteq> Web \<and> \<not> truthy (capturedImage s)"
  by (cases "capturedImage s") (simp_all add: cameraContainer_def)

lemma cameraContainer_WebPlaceholder:
  "cameraContainer os s = WebPlaceholder \<longleftrightarrow> os = Web \<and> \<not> truthy (capturedImage s)"
  by (cases "capturedImage s") (simp_all add: cameraContainer_def)

lemma shows_camera_iff: "shows_camera scr \<longleftrightarrow> (\<exists>f c b. scr = Container (CameraView f) c b)"
  by (cases scr rule: shows_camera.cases) simp_all

lemma shows_webPlaceholder_iff:
  "shows_webPlaceholder scr \<longleftrightarrow> (\<exists>c b. scr = Container WebPlaceholder c b)"
  by (cases scr rule: shows_webPlaceholder.cases) simp_all

text \<open>
  The empty string is a state the handlers themselves produce: a capture that resolves to
  a picture whose \<open>uri\<close> is empty stores it like any other.
\<close>

lemma empty_uri_stored:
  "fst (handleCapturePhoto
         \<lparr>OS = Android,
          launchImageLibraryAsync = (\<lambda>_. Rejected),
          cameraRef = Some \<lparr>takePictureAsync = Resolved (Some \<lparr>photo_uri = ''''\<rparr>)\<rparr>\<rparr>
         \<lparr>permission = Some \<lparr>granted = True\<rparr>, facing = Back, capturedImage = None\<rparr>)
   = \<lparr>permission = Some \<lparr>granted = True\<rparr>, facing = Back, capturedImage = Some ''''\<rparr>"
  by (simp add: handleCapturePhoto_def)

section \<open>What is rendered\<close>




text \<open>
  On web an image is held after one successful pick through the placeholder's own upload
  button.
\<close>

lemma web_upload_stores_image:
  "fst (handleUploadImage
         \<lparr>OS = Web,
          launchImageLibraryAsync =
            (\<lambda>_. Resolved \<lparr>canceled = False, assets = Some [\<lparr>uri = ''file://tmp/leaf.jpg''\<rparr>]\<rparr>),
          cameraRef = None\<rparr>
         \<lparr>permission = None, facing = Back, capturedImage = None\<rparr>)
   = \<lparr>permission = None, facing = Back, capturedImage = Some ''file://tmp/leaf.jpg''\<rparr>"
  by (simp add: handleUploadImage_def)

text \<open>
  C2, as the specification states it: on web the upload-only placeholder is always
  rendered, whatever the permission. This fails once an image is held: the camera
  container then shows the preview, and the placeholder is not rendered.
\<close>

theorem web_placeholder_with_image_counterexample:
  "\<not> shows_webPlaceholder
       (HomeScreen Web
          \<lparr>permission = None, facing = Back, capturedImage = Some ''file://tmp/leaf.jpg''\<rparr>)"
  by (simp add: HomeScreen_def cameraContainer_def)

text \<open>
  C2, amended: on web the permission gate is bypassed. Nothing is requested on mount,
  neither the loading view nor the permission view is ever returned, and the rendered
  screen does not depend on the permission value at all. The camera view is never
  rendered. The upload-only placeholder is rendered whenever no image is present, that
  is, when \<open>capturedImage\<close> is \<open>null\<close>, and exactly when it is \<open>null\<close> or the empty
  string; it is not rendered while a non-empty image reference is held.
\<close>

theorem web_bypasses_permission_gate:
  "mountEffect Web = []
   \<and> HomeScreen Web s \<noteq> LoadingContainer
   \<and> HomeScreen Web s \<noteq> PermissionContainer
   \<and> HomeScreen Web (s\<lparr>permission := r\<rparr>) = HomeScreen Web s
   \<and> \<not> shows_camera (HomeScreen Web s)
   \<and> (capturedImage s = None \<longrightarrow> shows_webPlaceholder (HomeScreen Web s))
   \<and> (shows_webPlaceholder (HomeScreen Web s) \<longleftrightarrow> \<not> truthy (capturedImage s))"
proof -
  have main: "HomeScreen Web s =
      Container (cameraContainer Web s) False (truthy (capturedImage s))"
    using HomeScreen_main [of Web s] by simp
  have indep: "HomeScreen Web (s\<lparr>permission := r\<rparr>) = HomeScreen Web s"
    by (simp add: HomeScreen_def cameraContainer_def)
  have cam: "\<not> shows_camera (HomeScreen Web s)"
    using cameraContainer_CameraView [of Web s] by (auto simp: main shows_camera_iff)
  have ph: "shows_webPlaceholder (HomeScreen Web s) \<longleftrightarrow> \<not> truthy (capturedImage s)"
    using cameraContainer_WebPlaceholder [of Web s] by (auto simp: main shows_webPlaceholder_iff)
  have "capturedImage s = None \<longrightarrow> shows_webPlaceholder (HomeScreen Web s)"
    using ph by simp
  with main indep cam ph show ?thesis
    by (simp add: mountEffect_def)
qed

theorem web_bypasses_permission_gate_witness:
  "capturedImage \<lparr>permission = None, facing = Back, capturedImage = None\<rparr> = None
   \<and> shows_webPlaceholder
       (HomeScreen Web \<lparr>permission = None, facing = Back, capturedImage = None\<rparr>)
   \<and> HomeScreen Web \<lparr>permission = Some \<lparr>granted = False\<rparr>, facing = Back, capturedImage = None\<rparr>
       = HomeScreen Web \<lparr>permission = None, facing = Back, capturedImage = None\<rparr>
   \<and> \<not> shows_camera
       (HomeScreen Web \<lparr>permission = None, facing = Back, capturedImage = None\<rparr>)"
  using web_bypasses_permission_gate
    [of "\<lparr>permission = None, facing = Back, capturedImage = None\<rparr>"
        "Some \<lparr>granted = False\<rparr>"]
  by simp

section \<open>The handlers\<close>

text \<open>
  C3: a platform failure of the gallery pick or of the capture (the awaited promise
  rejects) is caught: the handler returns with exactly one alert after the platform call,
  and the state it returns is the state it was given, so \<open>capturedImage\<close>, \<open>facing\<close> and
  \<open>permission\<close> are unchanged and a state without an image still has none.
\<close>

theorem platform_failure_keeps_state:
  "(launchImageLibraryAsync p upload_options = Rejected \<longrightarrow>
      handleUploadImage p s =
        (s, [LaunchImageLibrary upload_options, Alert ''Error'' ''Failed to pick image'']))
   \<and> (OS p \<noteq> Web \<and> cameraRef p = Some cam \<and> takePictureAsync cam = Rejected \<longrightarrow>
      handleCapturePhoto p s =
        (s, [TakePicture, Alert ''Error'' ''Failed to capture photo'']))"
  by (simp add: handleUploadImage_def handleCapturePhoto_def)

theorem platform_failure_keeps_state_witness:
  "handleUploadImage
     \<lparr>OS = Android, launchImageLibraryAsync = (\<lambda>_. Rejected),
      cameraRef = Some \<lparr>takePictureAsync = Rejected\<rparr>\<rparr>
     \<lparr>permission = Some \<lparr>granted = True\<rparr>, facing = Front, capturedImage = None\<rparr>
   = (\<lparr>permission = Some \<lparr>granted = True\<rparr>, facing = Front, capturedImage = None\<rparr>,
      [LaunchImageLibrary upload_options, Alert ''Error'' ''Failed to pick image''])
   \<and> handleCapturePhoto
     \<lparr>OS = Android, launchImageLibraryAsync = (\<lambda>_. Rejected),
      cameraRef = Some \<lparr>takePictureAsync = Rejected\<rparr>\<rparr>
     \<lparr>permission = Some \<lparr>granted = True\<rparr>, facing = Front, capturedImage = None\<rparr>
   = (\<lparr>permission = Some \<lparr>granted = True\<rparr>, facing = Front, capturedImage = None\<rparr>,
      [TakePicture, Alert ''Error'' ''Failed to capture photo''])"
  using platform_failure_keeps_state
    [of "\<lparr>OS = Android, launchImageLibraryAsync = (\<lambda>_. Rejected),
          cameraRef = Some \<lparr>takePictureAsync = Rejected\<rparr>\<rparr>"
        "\<lparr>permission = Some \<lparr>granted = True\<rparr>, facing = Front, capturedImage = None\<rparr>"
        "\<lparr>takePictureAsync = Rejected\<rparr>"]
  by simp

text \<open>
  C4: the upload handler calls the gallery picker first, with in-place editing allowed,
  aspect ratio 4:3 and quality 1, the top of the picker's range. When the result is
  canceled the handler returns the state it was given, so a state whose \<open>capturedImage\<close>
  is \<open>null\<close> keeps it \<open>null\<close>. When the result is not canceled and carries a selected
  asset, \<open>capturedImage\<close> becomes that asset's \<open>uri\<close> (no longer \<open>null\<close>) and nothing else
  changes.
\<close>

theorem upload_picks_from_gallery:
  "(\<exists>rest. snd (handleUploadImage p s) =
       LaunchImageLibrary
         \<lparr>mediaTypes = Images, allowsEditing = True, aspect = (4, 3), quality = 1\<rparr> # rest)
   \<and> (launchImageLibraryAsync p
         \<lparr>mediaTypes = Images, allowsEditing = True, aspect = (4, 3), quality = 1\<rparr>
         = Resolved res \<and> canceled res \<longrightarrow>
       fst (handleUploadImage p s) = s
       \<and> (capturedImage s = None \<longrightarrow> capturedImage (fst (handleUploadImage p s)) = None))
   \<and> (launchImageLibraryAsync p
         \<lparr>mediaTypes = Images, allowsEditing = True, aspect = (4, 3), quality = 1\<rparr>
         = Resolved res \<and> \<not> canceled res \<and> assets res = Some (a # others) \<longrightarrow>
       fst (handleUploadImage p s) = s\<lparr>capturedImage := Some (uri a)\<rparr>
       \<and> capturedImage (fst (handleUploadImage p s)) \<noteq> None)"
  by (auto simp: handleUploadImage_def upload_options_def
           split: promise.splits option.splits list.splits)

theorem upload_picks_from_gallery_witness:
  "capturedImage
     (fst (handleUploadImage
        \<lparr>OS = Web,
         launchImageLibraryAsync = (\<lambda>_. Resolved \<lparr>canceled = True, assets = None\<rparr>),
         cameraRef = None\<rparr>
        \<lparr>permission = None, facing = Back, capturedImage = None\<rparr>)) = None
   \<and> capturedImage
     (fst (handleUploadImage
        \<lparr>OS = Web,
         launchImageLibraryAsync =
           (\<lambda>_. Resolved \<lparr>canceled = False, assets = Some [\<lparr>uri = ''file://tmp/leaf.jpg''\<rparr>]\<rparr>),
         cameraRef = None\<rparr>
        \<lparr>permission = None, facing = Back, capturedImage = None\<rparr>))
     = Some ''file://tmp/leaf.jpg''"
  using
    upload_picks_from_gallery
      [of "\<lparr>OS = Web,
            launchImageLibraryAsync = (\<lambda>_. Resolved \<lparr>canceled = True, assets = None\<rparr>),
            cameraRef = None\<rparr>"
          "\<lparr>permission = None, facing = Back, capturedImage = None\<rparr>"
          "\<lparr>canceled = True, assets = None\<rparr>"]
    upload_picks_from_gallery
      [of "\<lparr>OS = Web,
            launchImageLibraryAsync =
              (\<lambda>_. Resolved \<lparr>canceled = False, assets = Some [\<lparr>uri = ''file://tmp/leaf.jpg''\<rparr>]\<rparr>),
            cameraRef = None\<rparr>"
          "\<lparr>permission = None, facing = Back, capturedImage = None\<rparr>"
          "\<lparr>canceled = False, assets = Some [\<lparr>uri = ''file://tmp/leaf.jpg''\<rparr>]\<rparr>"
          "\<lparr>uri = ''file://tmp/leaf.jpg''\<rparr>" "[]"]
  by simp

text \<open>
  C5: from a state without an image (\<open>capturedImage\<close> is \<open>null\<close>), a capture that succeeds
  stores the picture's \<open>uri\<close>, and retake after it gives back exactly the state before the
  capture: \<open>capturedImage\<close> is \<open>null\<close> again, \<open>facing\<close> and \<open>permission\<close> are as they were.
\<close>

theorem capture_then_retake:
  assumes "OS p \<noteq> Web"
    and "cameraRef p = Some cam"
    and "takePictureAsync cam = Resolved (Some photo)"
    and "capturedImage s = None"
  shows "capturedImage (fst (handleCapturePhoto p s)) = Some (photo_uri photo)
         \<and> fst (retakeButton_onPress (fst (handleCapturePhoto p s))) = s
         \<and> capturedImage (fst (retakeButton_onPress (fst (handleCapturePhoto p s)))) = None
         \<and> facing (fst (retakeButton_onPress (fst (handleCapturePhoto p s)))) = facing s
         \<and> permission (fst (retakeButton_onPress (fst (handleCapturePhoto p s)))) = permission s"
proof -
  have cap: "fst (handleCapturePhoto p s) = s\<lparr>capturedImage := Some (photo_uri photo)\<rparr>"
    using assms(1-3) by (simp add: handleCapturePhoto_def)
  have undo: "fst (retakeButton_onPress (s\<lparr>capturedImage := Some (photo_uri photo)\<rparr>)) = s"
    using assms(4) by (simp add: retakeButton_onPress_def)
  show ?thesis
    using assms(4) by (simp add: cap undo)
qed

theorem capture_then_retake_witness:
  "fst (retakeButton_onPress
     (fst (handleCapturePhoto
        \<lparr>OS = Android, launchImageLibraryAsync = (\<lambda>_. Rejected),
         cameraRef =
           Some \<lparr>takePictureAsync = Resolved (Some \<lparr>photo_uri = ''file://tmp/photo1.jpg''\<rparr>)\<rparr>\<rparr>
        \<lparr>permission = Some \<lparr>granted = True\<rparr>, facing = Front, capturedImage = None\<rparr>)))
   = \<lparr>permission = Some \<lparr>granted = True\<rparr>, facing = Front, capturedImage = None\<rparr>"
  using capture_then_retake
    [of "\<lparr>OS = Android, launchImageLibraryAsync = (\<lambda>_. Rejected),
          cameraRef =
            Some \<lparr>takePictureAsync = Resolved (Some \<lparr>photo_uri = ''file://tmp/photo1.jpg''\<rparr>)\<rparr>\<rparr>"
        "\<lparr>takePictureAsync = Resolved (Some \<lparr>photo_uri = ''file://tmp/photo1.jpg''\<rparr>)\<rparr>"
        "\<lparr>photo_uri = ''file://tmp/photo1.jpg''\<rparr>"
        "\<lparr>permission = Some \<lparr>granted = True\<rparr>, facing = Front, capturedImage = None\<rparr>"]
  by simp

text \<open>
  C6: retake on a state whose \<open>capturedImage\<close> is already \<open>null\<close> changes nothing. The
  handler has no failing branch: it returns the same state and no effect.
\<close>

theorem retake_when_idle:
  "capturedImage s = None \<Longrightarrow> retakeButton_onPress s = (s, [])"
  by (simp add: retakeButton_onPress_def)

theorem retake_when_idle_witness:
  "retakeButton_onPress \<lparr>permission = Some \<lparr>granted = True\<rparr>, facing = Front, capturedImage = None\<rparr>
   = (\<lparr>permission = Some \<lparr>granted = True\<rparr>, facing = Front, capturedImage = None\<rparr>, [])"
  using retake_when_idle
    [of "\<lparr>permission = Some \<lparr>granted = True\<rparr>, facing = Front, capturedImage = None\<rparr>"]
  by simp

section \<open>The controls\<close>

lemma controls_of_main:
  "controls_of (Container cc c b) =
     [MenuButton, NotificationsButton]
     @ (case cc of WebPlaceholder \<Rightarrow> [UploadOnlyButton] | _ \<Rightarrow> [])
     @ (if c then [UploadButton, CaptureButton, FlipButton] else [])
     @ (if b then [RetakeButton, AnalyzeButton] else [])"
  by simp












text \<open>
  C9: the analyze handler only raises the notice \<open>Processing image...\<close>. The state it
  returns is the state it was given (\<open>capturedImage\<close>, \<open>facing\<close> and \<open>permission\<close>
  unchanged, so the same image stays in preview and the same screen is rendered), and the
  alert is its only effect: no picker call, no capture, no permission request.
\<close>

theorem analyze_only_alerts:
  "fst (analyzeButton_onPress s) = s
   \<and> capturedImage (fst (analyzeButton_onPress s)) = capturedImage s
   \<and> facing (fst (analyzeButton_onPress s)) = facing s
   \<and> permission (fst (analyzeButton_onPress s)) = permission s
   \<and> snd (analyzeButton_onPress s) = [Alert ''Analyzing'' ''Processing image...'']
   \<and> HomeScreen os (fst (analyzeButton_onPress s)) = HomeScreen os s"
  by (simp add: analyzeButton_onPress_def)

theorem analyze_only_alerts_witness:
  "analyzeButton_onPress
     \<lparr>permission = Some \<lparr>granted = True\<rparr>, facing = Back,
      capturedImage = Some ''file://tmp/photo1.jpg''\<rparr>
   = (\<lparr>permission = Some \<lparr>granted = True\<rparr>, facing = Back,
       capturedImage = Some ''file://tmp/photo1.jpg''\<rparr>,
      [Alert ''Analyzing'' ''Processing image...''])
   \<and> shows_preview
       (HomeScreen Android
          (fst (analyzeButton_onPress
             \<lparr>permission = Some \<lparr>granted = True\<rparr>, facing = Back,
              capturedImage = Some ''file://tmp/photo1.jpg''\<rparr>)))
     = Some ''file://tmp/photo1.jpg''"
proof -
  have scr: "shows_preview
       (HomeScreen Android
          \<lparr>permission = Some \<lparr>granted = True\<rparr>, facing = Back,
           capturedImage = Some ''file://tmp/photo1.jpg''\<rparr>)
     = Some ''file://tmp/photo1.jpg''"
    by (simp add: HomeScreen_def cameraContainer_def permission_granted_def)
  show ?thesis
    using scr analyze_only_alerts
      [of "\<lparr>permission = Some \<lparr>granted = True\<rparr>, facing = Back,
            capturedImage = Some ''file://tmp/photo1.jpg''\<rparr>" Android]
    by (simp add: prod_eq_iff)
qed

text \<open>
  C10: on a platform other than web, a capture pressed while \<open>cameraRef.current\<close> is \<open>null\<close>
  returns silently: the state is unchanged and there is no effect at all, neither a
  capture call nor an alert. A capture that rejects, by contrast, raises the alert
  \<open>Failed to capture photo\<close>.
\<close>

theorem capture_without_camera_ref:
  "(OS p \<noteq> Web \<and> cameraRef p = None \<longrightarrow> handleCapturePhoto p s = (s, []))
   \<and> (OS p \<noteq> Web \<and> cameraRef p = Some cam \<and> takePictureAsync cam = Rejected \<longrightarrow>
        Alert ''Error'' ''Failed to capture photo'' \<in> set (snd (handleCapturePhoto p s)))"
  by (simp add: handleCapturePhoto_def)

theorem capture_without_camera_ref_witness:
  "handleCapturePhoto
     \<lparr>OS = Ios, launchImageLibraryAsync = (\<lambda>_. Rejected), cameraRef = None\<rparr>
     \<lparr>permission = Some \<lparr>granted = True\<rparr>, facing = Back, capturedImage = None\<rparr>
   = (\<lparr>permission = Some \<lparr>granted = True\<rparr>, facing = Back, capturedImage = None\<rparr>, [])
   \<and> Alert ''Error'' ''Failed to capture photo''
       \<in> set (snd (handleCapturePhoto
           \<lparr>OS = Ios, launchImageLibraryAsync = (\<lambda>_. Rejected),
            cameraRef = Some \<lparr>takePictureAsync = Rejected\<rparr>\<rparr>
           \<lparr>permission = Some \<lparr>granted = True\<rparr>, facing = Back, capturedImage = None\<rparr>))"
  using
    capture_without_camera_ref
      [of "\<lparr>OS = Ios, launchImageLibraryAsync = (\<lambda>_. Rejected), cameraRef = None\<rparr>"
          "\<lparr>permission = Some \<lparr>granted = True\<rparr>, facing = Back, capturedImage = None\<rparr>"]
    capture_without_camera_ref
      [of "\<lparr>OS = Ios, launchImageLibraryAsync = (\<lambda>_. Rejected),
            cameraRef = Some \<lparr>takePictureAsync = Rejected\<rparr>\<rparr>"
          "\<lparr>permission = Some \<lparr>granted = True\<rparr>, facing = Back, capturedImage = None\<rparr>"
          "\<lparr>takePictureAsync = Rejected\<rparr>"]
  by simp

end
